theory Spec2Isabelle
  imports Main "HOL-Library.Sublist"
begin

section \<open>The Eufy security plugin: login, client events and device discovery\<close>

text \<open>
  The plugin source comes in two revisions of the same file. Both have the same
  \<open>tryLogin\<close>, \<open>initializeClient\<close>, \<open>getDevice\<close> and \<open>releaseDevice\<close>; they
  differ in the interface list that \<open>deviceAdded\<close> builds. The revision is a
  parameter of \<open>deviceAdded\<close> below.

  An \<open>async\<close> function runs without interruption up to each \<open>await\<close>. The model
  has one function for each such stretch of \<open>tryLogin\<close>, and the sequential
  \<open>tryLogin\<close> composes them. What the vendor library answers (the client object
  that \<open>EufySecurity.initialize\<close> resolves with, the events a client emits) is an
  input.
\<close>

subsection \<open>Data\<close>

text \<open>Identity of an \<open>EufySecurity\<close> object returned by \<open>EufySecurity.initialize\<close>.\<close>
type_synonym client = nat

text \<open>An \<open>EufyDevice\<close> of the vendor library, by what its methods answer:
  \<open>isCamera\<close> is the answer of the method \<open>isCamera()\<close>, the device's own report, as
  \<open>hasBattery\<close> is that of \<open>hasBattery()\<close>; \<open>properties\<close> lists the names for which
  \<open>hasProperty\<close> answers true.\<close>
record eufy_device =
  isCamera :: bool
  getName :: string
  getModel :: string
  getSerial :: string
  getSoftwareVersion :: string
  hasBattery :: bool
  properties :: "string list"

definition hasProperty :: "eufy_device \<Rightarrow> string \<Rightarrow> bool" where
  "hasProperty d p = (p \<in> set (properties d))"

datatype scrypted_interface = VideoCamera | Camera | OnOff | Battery | MotionSensor

datatype scrypted_device_type = DeviceType_Camera

record device_info =
  model :: string
  manufacturer :: string
  firmware :: string
  serialNumber :: string

text \<open>The \<open>Device\<close> descriptor handed to \<open>deviceManager.onDeviceDiscovered\<close>.\<close>
record device_descriptor =
  info :: device_info
  nativeId :: string
  device_name :: string
  device_type :: scrypted_device_type
  interfaces :: "scrypted_interface list"

text \<open>The fields the \<open>EufySecurityCamera\<close> constructor stores.\<close>
record eufy_camera =
  cam_nativeId :: string
  cam_client :: "client option"
  cam_device :: eufy_device

record captcha_options =
  captchaCode :: string
  captchaId :: "string option"

record connect_options =
  verifyCode :: "string option"
  captcha :: "captcha_options option"
  force :: bool

datatype p2p_connection_type = QUICKEST

record eufy_config =
  username :: "string option"
  password :: "string option"
  country :: string
  trustedDeviceName :: "string option"
  p2pConnectionSetup :: p2p_connection_type
  pollingIntervalMinutes :: nat
  eventDurationSeconds :: nat

text \<open>\<open>settingsStorage.values\<close>: \<open>None\<close> is a setting that was never stored
  (\<open>undefined\<close>).\<close>
record settings_values =
  v_country :: "string option"
  v_email :: "string option"
  v_password :: "string option"
  v_trustedDeviceName :: "string option"
  v_captchaId :: "string option"

text \<open>The methods of the host's \<open>Logger\<close> that \<open>EufyLogger\<close> forwards to.\<close>
datatype log_level = V | D | I | W | E | A

text \<open>The calls that \<open>EufySecurityPlugin\<close> makes to the host and to the vendor library,
  in the order made. (What a camera object does on its own after its construction is
  not followed.)\<close>
datatype effect =
    HostLog log_level string
  | HostClearAlerts
  | Initialize eufy_config
  | ClientConnect client connect_options
  | PutSetting string string
  | OnDeviceDiscovered device_descriptor

datatype error = Error string | TypeError

record plugin =
  name :: string
  vals :: settings_values
  client :: "client option"
  registered :: "client list"
  devices :: "string \<rightharpoonup> eufy_camera"
  alerts :: "string list"
  effects :: "effect list"

subsection \<open>JavaScript built-ins the code relies on\<close>

text \<open>Truthiness of an optional string: \<open>undefined\<close> and \<open>""\<close> are falsy.\<close>
definition falsy :: "string option \<Rightarrow> bool" where
  "falsy v = (case v of None \<Rightarrow> True | Some x \<Rightarrow> x = [])"

definition hex_digit :: "nat \<Rightarrow> char" where
  "hex_digit n = (''0123456789abcdef'' ! (n mod 16))"

text \<open>\<open>JSON.stringify\<close> on a string: the quote, the backslash and the control
  characters are escaped, everything else is copied.\<close>
definition json_escape :: "char \<Rightarrow> string" where
  "json_escape c =
     (if c = CHR 0x22 then [CHR 0x5C, CHR 0x22]
      else if c = CHR 0x5C then [CHR 0x5C, CHR 0x5C]
      else if c = CHR 0x08 then [CHR 0x5C, CHR ''b'']
      else if c = CHR 0x09 then [CHR 0x5C, CHR ''t'']
      else if c = CHR 0x0A then [CHR 0x5C, CHR ''n'']
      else if c = CHR 0x0C then [CHR 0x5C, CHR ''f'']
      else if c = CHR 0x0D then [CHR 0x5C, CHR ''r'']
      else if of_char c < (32::nat)
        then [CHR 0x5C, CHR ''u'', CHR ''0'', CHR ''0'',
              hex_digit (of_char c div 16), hex_digit (of_char c mod 16)]
      else [c])"

definition json_string :: "string \<Rightarrow> string" where
  "json_string s = [CHR 0x22] @ concat (map json_escape s) @ [CHR 0x22]"

fun join_comma :: "string list \<Rightarrow> string" where
  "join_comma [] = []"
| "join_comma [x] = x"
| "join_comma (x # y # ys) = x @ '','' @ join_comma (y # ys)"

text \<open>\<open>JSON.stringify\<close> on an array of strings.\<close>
definition json_stringify :: "string list \<Rightarrow> string" where
  "json_stringify xs = ''['' @ join_comma (map json_string xs) @ '']''"

subsection \<open>The host logger\<close>

text \<open>Modelled from the spec: the host's \<open>Logger\<close> object (\<open>this.log\<close>) is not part of
  the repository. The spec's AlertLog is "a small process-wide append/clear log of
  operator-facing diagnostic messages": \<open>log.a\<close> appends an alert, \<open>log.clearAlerts\<close>
  empties the log, the other levels leave it alone.\<close>
definition host_log :: "log_level \<Rightarrow> string \<Rightarrow> plugin \<Rightarrow> plugin" where
  "host_log lvl text s =
     s\<lparr>alerts := (if lvl = A then alerts s @ [text] else alerts s),
       effects := effects s @ [HostLog lvl text]\<rparr>"

definition host_clearAlerts :: "plugin \<Rightarrow> plugin" where
  "host_clearAlerts s = s\<lparr>alerts := [], effects := effects s @ [HostClearAlerts]\<rparr>"

subsection \<open>logger.ts\<close>

definition getMessage :: "string option \<Rightarrow> string list \<Rightarrow> string" where
  "getMessage message optionalParams =
     (let msg = (case message of None \<Rightarrow> [] | Some m \<Rightarrow> m)
      in if optionalParams \<noteq> [] then msg @ '' '' @ json_stringify optionalParams
         else msg)"

definition debug :: "string \<Rightarrow> string list \<Rightarrow> plugin \<Rightarrow> plugin" where
  "debug message optionalParams s = host_log D (getMessage (Some message) optionalParams) s"

text \<open>\<open>EufyLogger.info\<close>.\<close>
definition info_log :: "string \<Rightarrow> string list \<Rightarrow> plugin \<Rightarrow> plugin" where
  "info_log message optionalParams s = host_log I (getMessage (Some message) optionalParams) s"

definition alert :: "string \<Rightarrow> string list \<Rightarrow> plugin \<Rightarrow> plugin" where
  "alert message optionalParams s = host_log A (getMessage (Some message) optionalParams) s"

definition clearAlerts :: "plugin \<Rightarrow> plugin" where
  "clearAlerts s = host_clearAlerts s"

subsection \<open>tryLogin and initializeClient\<close>

text \<open>\<open>settingsStorage.values.country\<close> has the default \<open>'US'\<close>.\<close>
definition values_country :: "settings_values \<Rightarrow> string" where
  "values_country v = (case v_country v of None \<Rightarrow> ''US'' | Some c \<Rightarrow> c)"

definition build_config :: "settings_values \<Rightarrow> eufy_config" where
  "build_config v =
     \<lparr>username = v_email v, password = v_password v, country = values_country v,
      trustedDeviceName = v_trustedDeviceName v, p2pConnectionSetup = QUICKEST,
      pollingIntervalMinutes = 10, eventDurationSeconds = 10\<rparr>"

text \<open>\<open>tryLogin\<close> from its first statement up to the call of
  \<open>EufySecurity.initialize\<close> inside \<open>initializeClient\<close>, where it waits. The guard
  tests the email setting twice, as the source does.\<close>
definition tryLogin_enter :: "plugin \<Rightarrow> (error + eufy_config) \<times> plugin" where
  "tryLogin_enter s =
     (let s1 = clearAlerts s in
      if falsy (v_email (vals s1)) \<or> falsy (v_email (vals s1)) then
        (Inl (Error ''Eufy email and password are missing.''),
         alert ''Enter your Eufy email and password to complete setup.'' [] s1)
      else
        (let config = build_config (vals s1)
         in (Inr config, s1\<lparr>effects := effects s1 @ [Initialize config]\<rparr>)))"

text \<open>The rest of \<open>initializeClient\<close>, once \<open>EufySecurity.initialize\<close> has resolved
  with the client \<open>c\<close>: the handle is stored and the seven handlers are registered
  on it.\<close>
definition initializeClient_resume :: "client \<Rightarrow> plugin \<Rightarrow> plugin" where
  "initializeClient_resume c s = s\<lparr>client := Some c, registered := registered s @ [c]\<rparr>"

text \<open>The rest of \<open>tryLogin\<close>, after \<open>initializeClient\<close> has returned, up to the call
  of \<open>connect\<close>. \<open>this.client\<close> is read here, at the time of the call.\<close>
definition tryLogin_connect ::
  "string option \<Rightarrow> string option \<Rightarrow> plugin \<Rightarrow> (error + unit) \<times> plugin" where
  "tryLogin_connect twoFactorCode captchaCodeArg s =
     (let captchaOptions =
            (case captchaCodeArg of
               None \<Rightarrow> None
             | Some code \<Rightarrow>
                 if code = [] then None
                 else Some \<lparr>captchaCode = code, captchaId = v_captchaId (vals s)\<rparr>);
          s1 = debug ''connect client'' [] s
      in case client s1 of
           None \<Rightarrow> (Inl TypeError, s1)
         | Some c \<Rightarrow>
             (Inr (),
              s1\<lparr>effects := effects s1 @
                    [ClientConnect c \<lparr>verifyCode = twoFactorCode, captcha = captchaOptions,
                                      force = False\<rparr>]\<rparr>))"

text \<open>\<open>tryLogin\<close> run without another task in between. \<open>init_result\<close> is what
  \<open>EufySecurity.initialize\<close> settles with: a rejection or the new client. The result
  \<open>Inr ()\<close> says that \<open>connect\<close> was called; the promise of \<open>tryLogin\<close> then settles as
  that call does.\<close>
definition tryLogin ::
  "error + client \<Rightarrow> string option \<Rightarrow> string option \<Rightarrow> plugin \<Rightarrow> (error + unit) \<times> plugin" where
  "tryLogin init_result twoFactorCode captchaCodeArg s =
     (case tryLogin_enter s of
        (Inl e, s1) \<Rightarrow> (Inl e, s1)
      | (Inr config, s1) \<Rightarrow>
          (case init_result of
             Inl e \<Rightarrow> (Inl e, s1)
           | Inr c \<Rightarrow> tryLogin_connect twoFactorCode captchaCodeArg (initializeClient_resume c s1)))"

subsection \<open>Handlers registered by initializeClient\<close>

text \<open>The prefix \<open>[name] (date) \<close> of the plugin's own log lines; \<open>now\<close> is what
  \<open>new Date().toLocaleString()\<close> returns at the call.\<close>
definition stamp :: "plugin \<Rightarrow> string \<Rightarrow> string" where
  "stamp s now = ''['' @ name s @ ''] ('' @ now @ '') ''"

definition tfa_alert :: string where
  "tfa_alert = ''Login failed: 2FA is enabled, check your email or texts for your code, then enter it into the Two Factor Code setting to conplete login.''"

definition captcha_alert_prefix :: string where
  "captcha_alert_prefix = ''Login failed: Captcha was requested, fill out the Captcha setting to conplete login. </br> <img src='' @ [CHR 0x22]"

definition captcha_alert :: "string \<Rightarrow> string" where
  "captcha_alert img = captcha_alert_prefix @ img @ [CHR 0x22] @ '' />''"

text \<open>Modelled from the spec: \<open>StorageSettings.putSetting\<close> belongs to the host SDK,
  which is not part of the repository. The spec has the handler "persist \<open>id\<close> as the
  pending captcha identifier"; the \<open>captchaId\<close> setting has no \<open>onPut\<close> hook, so storing
  it starts no login.\<close>
definition putSetting_captchaId :: "string \<Rightarrow> plugin \<Rightarrow> plugin" where
  "putSetting_captchaId ident s =
     s\<lparr>vals := (vals s)\<lparr>v_captchaId := Some ident\<rparr>,
       effects := effects s @ [PutSetting ''captchaId'' ident]\<rparr>"

definition on_tfa_request :: "plugin \<Rightarrow> plugin" where
  "on_tfa_request s = alert tfa_alert [] s"

definition on_captcha_request :: "string \<Rightarrow> string \<Rightarrow> plugin \<Rightarrow> plugin" where
  "on_captcha_request ident img s =
     putSetting_captchaId ident (alert (captcha_alert img) [] s)"

definition on_connect :: "string \<Rightarrow> plugin \<Rightarrow> plugin" where
  "on_connect now s = clearAlerts (debug (stamp s now @ ''Client connected.'') [] s)"

definition on_push_connect :: "string \<Rightarrow> plugin \<Rightarrow> plugin" where
  "on_push_connect now s = debug (stamp s now @ ''Push Connected.'') [] s"

definition on_push_close :: "string \<Rightarrow> plugin \<Rightarrow> plugin" where
  "on_push_close now s = debug (stamp s now @ ''Push Closed.'') [] s"

subsection \<open>Device discovery\<close>

datatype revision = Rev1 | Rev2

text \<open>The interface list \<open>deviceAdded\<close> builds: the first revision adds to it from
  the device's features, the second has a fixed list.\<close>
definition device_interfaces :: "revision \<Rightarrow> eufy_device \<Rightarrow> scrypted_interface list" where
  "device_interfaces rv d =
     (case rv of
        Rev1 \<Rightarrow> [VideoCamera]
                 @ (if hasBattery d then [Battery] else [])
                 @ (if hasProperty d ''motionDetection'' then [MotionSensor] else [])
      | Rev2 \<Rightarrow> [VideoCamera, Camera, OnOff])"

text \<open>A method that is read from an object and not called: the value is the function
  itself, and a function is truthy whatever a call of it would answer.\<close>
definition uncalled_method_truthy :: "bool \<Rightarrow> bool" where
  "uncalled_method_truthy answer = True"

text \<open>The guard of \<open>deviceAdded\<close> reads \<open>eufyDevice.isCamera\<close> without calling it,
  where the source calls \<open>getName()\<close>, \<open>getModel()\<close>, \<open>hasBattery()\<close> and
  \<open>hasProperty(..)\<close>.\<close>
definition deviceAdded :: "revision \<Rightarrow> string \<Rightarrow> eufy_device \<Rightarrow> plugin \<Rightarrow> plugin" where
  "deviceAdded rv now eufyDevice s =
     (if \<not> uncalled_method_truthy (isCamera eufyDevice) then
        info_log (stamp s now @ ''Ignoring unsupported discovered device: '')
          [getName eufyDevice, getModel eufyDevice] s
      else
        (let s1 = info_log (stamp s now @ ''Device discovered: '')
                    [getName eufyDevice, getModel eufyDevice] s;
             nid = getSerial eufyDevice;
             device = \<lparr>info = \<lparr>model = getModel eufyDevice, manufacturer = ''Eufy'',
                                firmware = getSoftwareVersion eufyDevice,
                                serialNumber = nid\<rparr>,
                       nativeId = nid, device_name = getName eufyDevice,
                       device_type = DeviceType_Camera,
                       interfaces = device_interfaces rv eufyDevice\<rparr>;
             s2 = s1\<lparr>devices := (devices s1)(nid \<mapsto>
                        \<lparr>cam_nativeId = nid, cam_client = client s1,
                         cam_device = eufyDevice\<rparr>)\<rparr>
         in s2\<lparr>effects := effects s2 @ [OnDeviceDiscovered device]\<rparr>))"

text \<open>A station, as \<open>stationAdded\<close> reads it: its name and its model.\<close>
definition stationAdded :: "string \<Rightarrow> string \<Rightarrow> string \<Rightarrow> plugin \<Rightarrow> plugin" where
  "stationAdded now station_name station_model s =
     info_log (stamp s now @ ''Station discovered: '')
       [station_name, station_model, ''but stations are not currently supported.''] s"

definition getDevice :: "string \<Rightarrow> plugin \<Rightarrow> eufy_camera option" where
  "getDevice nid s = devices s nid"

definition releaseDevice :: "string \<Rightarrow> string \<Rightarrow> string \<Rightarrow> plugin \<Rightarrow> plugin" where
  "releaseDevice ident nid now s =
     info_log (stamp s now @ ''Device with id '' @ [CHR 0x27] @ nid @ [CHR 0x27]
               @ '' was removed.'') [] s"

subsection \<open>Events of a client\<close>

datatype client_event =
    DeviceAdded eufy_device
  | StationAdded string string
  | TfaRequest
  | CaptchaRequest string string
  | Connect
  | PushConnect
  | PushClose

fun handle_event :: "revision \<Rightarrow> string \<Rightarrow> client_event \<Rightarrow> plugin \<Rightarrow> plugin" where
  "handle_event rv now (DeviceAdded d) s = deviceAdded rv now d s"
| "handle_event rv now (StationAdded n m) s = stationAdded now n m s"
| "handle_event rv now TfaRequest s = on_tfa_request s"
| "handle_event rv now (CaptchaRequest ident img) s = on_captcha_request ident img s"
| "handle_event rv now Connect s = on_connect now s"
| "handle_event rv now PushConnect s = on_push_connect now s"
| "handle_event rv now PushClose s = on_push_close now s"

text \<open>The client \<open>c\<close> emits an event: the handler runs once for every time
  \<open>initializeClient\<close> registered it on \<open>c\<close>. The handlers act on the plugin, whichever
  client calls them.\<close>
definition emit :: "revision \<Rightarrow> string \<Rightarrow> client \<Rightarrow> client_event \<Rightarrow> plugin \<Rightarrow> plugin" where
  "emit rv now c ev s = ((handle_event rv now ev) ^^ count_list (registered s) c) s"

subsection \<open>The pending challenge, read off the alert log\<close>

datatype challenge = NoChallenge | TwoFactorPending | CaptchaPending

text \<open>The source keeps no variable for the spec's ChallengeState: a pending
  challenge exists in the plugin only as the alert its handler raised. This
  observation reads it back from the newest alert.\<close>
definition challengeState :: "plugin \<Rightarrow> challenge" where
  "challengeState s =
     (case rev (alerts s) of
        [] \<Rightarrow> NoChallenge
      | a # _ \<Rightarrow>
          if a = tfa_alert then TwoFactorPending
          else if prefix captcha_alert_prefix a then CaptchaPending
          else NoChallenge)"

text \<open>The texts of the log and alert calls among the effects.\<close>
fun effect_message :: "effect \<Rightarrow> string list" where
  "effect_message (HostLog lvl text) = [text]"
| "effect_message _ = []"

definition messages :: "plugin \<Rightarrow> string list" where
  "messages s = concat (map effect_message (effects s))"

text \<open>The \<open>connect\<close> calls among the effects.\<close>
fun effect_connect :: "effect \<Rightarrow> (client \<times> connect_options) list" where
  "effect_connect (ClientConnect c opts) = [(c, opts)]"
| "effect_connect _ = []"

definition connect_calls :: "plugin \<Rightarrow> (client \<times> connect_options) list" where
  "connect_calls s = concat (map effect_connect (effects s))"

fun effect_initialize :: "effect \<Rightarrow> eufy_config list" where
  "effect_initialize (Initialize config) = [config]"
| "effect_initialize _ = []"

definition initialize_calls :: "plugin \<Rightarrow> eufy_config list" where
  "initialize_calls s = concat (map effect_initialize (effects s))"

fun effect_registration :: "effect \<Rightarrow> device_descriptor list" where
  "effect_registration (OnDeviceDiscovered d) = [d]"
| "effect_registration _ = []"

definition registrations :: "plugin \<Rightarrow> device_descriptor list" where
  "registrations s = concat (map effect_registration (effects s))"

subsection \<open>Operations and events in sequence\<close>

text \<open>What can happen to the plugin: a whole \<open>tryLogin\<close>, one of its stretches
  (when another task runs in between), an event of a client, \<open>releaseDevice\<close>.\<close>
datatype action =
    TryLogin "error + client" "string option" "string option"
  | TryLoginEnter
  | InitResolved client
  | TryLoginConnect "string option" "string option"
  | Emit string client client_event
  | ReleaseDevice string string string

fun step :: "revision \<Rightarrow> action \<Rightarrow> plugin \<Rightarrow> plugin" where
  "step rv (TryLogin r tfc cc) s = snd (tryLogin r tfc cc s)"
| "step rv TryLoginEnter s = snd (tryLogin_enter s)"
| "step rv (InitResolved c) s = initializeClient_resume c s"
| "step rv (TryLoginConnect tfc cc) s = snd (tryLogin_connect tfc cc s)"
| "step rv (Emit now c ev) s = emit rv now c ev s"
| "step rv (ReleaseDevice ident nid now) s = releaseDevice ident nid now s"

definition run :: "revision \<Rightarrow> action list \<Rightarrow> plugin \<Rightarrow> plugin" where
  "run rv acts s = fold (step rv) acts s"

text \<open>The client handle is the client of the initialization that resolved last, and
  \<open>connect\<close> was only ever called on clients that an initialization resolved with.\<close>
definition handle_inv :: "plugin \<Rightarrow> bool" where
  "handle_inv s =
     (client s = (case rev (registered s) of [] \<Rightarrow> None | c # _ \<Rightarrow> Some c)
      \<and> list_all (\<lambda>call. fst call \<in> set (registered s)) (connect_calls s))"

text \<open>The plugin with other values in the email and password settings.\<close>
definition set_credentials :: "string option \<Rightarrow> string option \<Rightarrow> plugin \<Rightarrow> plugin" where
  "set_credentials e p s = s\<lparr>vals := (vals s)\<lparr>v_email := e, v_password := p\<rparr>\<rparr>"

text \<open>An effect with the credentials blanked: only the configuration handed to
  \<open>EufySecurity.initialize\<close> carries them.\<close>
fun redact :: "effect \<Rightarrow> effect" where
  "redact (Initialize config) = Initialize (config\<lparr>username := None, password := None\<rparr>)"
| "redact e = e"

text \<open>Two plugin states that differ at most in the credential values, and agree on
  what the guard of \<open>tryLogin\<close> tests.\<close>
definition cred_equiv :: "plugin \<Rightarrow> plugin \<Rightarrow> bool" where
  "cred_equiv s t =
     (name s = name t \<and> client s = client t \<and> registered s = registered t
      \<and> devices s = devices t \<and> alerts s = alerts t
      \<and> v_country (vals s) = v_country (vals t)
      \<and> v_trustedDeviceName (vals s) = v_trustedDeviceName (vals t)
      \<and> v_captchaId (vals s) = v_captchaId (vals t)
      \<and> map redact (effects s) = map redact (effects t)
      \<and> falsy (v_email (vals s)) = falsy (v_email (vals t)))"

subsection \<open>Concrete inputs\<close>

definition fresh_plugin :: plugin where
  "fresh_plugin =
     \<lparr>name = ''Eufy'',
      vals = \<lparr>v_country = None, v_email = None, v_password = None,
              v_trustedDeviceName = None, v_captchaId = None\<rparr>,
      client = None, registered = [], devices = Map.empty, alerts = [], effects = []\<rparr>"

definition configured_plugin :: plugin where
  "configured_plugin =
     set_credentials (Some ''user@example.com'') (Some ''secret'') fresh_plugin"

definition password_missing_plugin :: plugin where
  "password_missing_plugin = set_credentials (Some ''user@example.com'') (Some []) fresh_plugin"

definition battery_camera :: eufy_device where
  "battery_camera =
     \<lparr>isCamera = True, getName = ''Front door'', getModel = ''T8210'',
      getSerial = ''T8210N0000000001'', getSoftwareVersion = ''2.1'',
      hasBattery = True, properties = [''motionDetection'']\<rparr>"

definition keypad :: eufy_device where
  "keypad =
     \<lparr>isCamera = False, getName = ''Keypad'', getModel = ''T8960'',
      getSerial = ''T8960N0000000001'', getSoftwareVersion = ''1.0'',
      hasBattery = False, properties = []\<rparr>"

text \<open>Two logins that overlap: the second is started while the \<open>connect\<close> of the
  first is still open. The second client then asks for a captcha, and after that the
  first client does.\<close>
definition overlap_second_asked :: plugin where
  "overlap_second_asked =
     run Rev1 [TryLogin (Inr 1) None None,
               TryLogin (Inr 2) None None,
               Emit ''t1'' 2 (CaptchaRequest ''id2'' ''img2'')] configured_plugin"

definition overlap_first_late :: plugin where
  "overlap_first_late =
     run Rev1 [Emit ''t2'' 1 (CaptchaRequest ''id1'' ''img1'')] overlap_second_asked"

text \<open>Two logins whose stretches alternate: both start, both initializations
  resolve, the first before the second, and then both call \<open>connect\<close>.\<close>
definition overlap_interleaved :: plugin where
  "overlap_interleaved =
     run Rev1 [TryLoginEnter, TryLoginEnter, InitResolved 1, InitResolved 2,
               TryLoginConnect (Some ''111111'') None,
               TryLoginConnect None None] configured_plugin"


section \<open>Properties\<close>

subsection \<open>What each operation does to the fields of the plugin\<close>

lemma host_log_fields [simp]:
  "name (host_log lvl text s) = name s"
  "vals (host_log lvl text s) = vals s"
  "client (host_log lvl text s) = client s"
  "registered (host_log lvl text s) = registered s"
  "devices (host_log lvl text s) = devices s"
  "effects (host_log lvl text s) = effects s @ [HostLog lvl text]"
  "alerts (host_log lvl text s) = (if lvl = A then alerts s @ [text] else alerts s)"
  by (simp_all add: host_log_def)

lemma clearAlerts_fields [simp]:
  "name (clearAlerts s) = name s"
  "vals (clearAlerts s) = vals s"
  "client (clearAlerts s) = client s"
  "registered (clearAlerts s) = registered s"
  "devices (clearAlerts s) = devices s"
  "effects (clearAlerts s) = effects s @ [HostClearAlerts]"
  "alerts (clearAlerts s) = []"
  by (simp_all add: clearAlerts_def host_clearAlerts_def)

lemma getMessage_no_params [simp]: "getMessage (Some m) [] = m"
  by (simp add: getMessage_def)

lemmas logger_defs = debug_def info_log_def alert_def

lemmas tryLogin_defs =
  tryLogin_def tryLogin_enter_def tryLogin_connect_def initializeClient_resume_def Let_def

text \<open>The calls one \<open>tryLogin\<close> makes, in order, in each of its three outcomes.\<close>
lemma tryLogin_effects:
  "effects (snd (tryLogin r tfc cc s)) = effects s @
     HostClearAlerts #
       (if falsy (v_email (vals s))
        then [HostLog A ''Enter your Eufy email and password to complete setup.'']
        else Initialize (build_config (vals s)) #
          (case r of
             Inl e \<Rightarrow> []
           | Inr c \<Rightarrow>
               [HostLog D ''connect client'',
                ClientConnect c
                  \<lparr>verifyCode = tfc,
                   captcha = (case cc of None \<Rightarrow> None
                              | Some code \<Rightarrow> if code = [] then None
                                  else Some \<lparr>captchaCode = code,
                                             captchaId = v_captchaId (vals s)\<rparr>),
                   force = False\<rparr>]))"
  by (simp add: tryLogin_defs logger_defs split: sum.splits option.splits)

lemma tryLogin_result:
  "fst (tryLogin r tfc cc s) =
     (if falsy (v_email (vals s)) then Inl (Error ''Eufy email and password are missing.'')
      else case r of Inl e \<Rightarrow> Inl e | Inr c \<Rightarrow> Inr ())"
  by (simp add: tryLogin_defs logger_defs split: sum.splits option.splits)

lemma tryLogin_fields:
  "name (snd (tryLogin r tfc cc s)) = name s"
  "vals (snd (tryLogin r tfc cc s)) = vals s"
  "devices (snd (tryLogin r tfc cc s)) = devices s"
  "client (snd (tryLogin r tfc cc s)) =
     (if falsy (v_email (vals s)) then client s
      else case r of Inl e \<Rightarrow> client s | Inr c \<Rightarrow> Some c)"
  "registered (snd (tryLogin r tfc cc s)) =
     (if falsy (v_email (vals s)) then registered s
      else case r of Inl e \<Rightarrow> registered s | Inr c \<Rightarrow> registered s @ [c])"
  "alerts (snd (tryLogin r tfc cc s)) =
     (if falsy (v_email (vals s))
      then [''Enter your Eufy email and password to complete setup.''] else [])"
  by (simp_all add: tryLogin_defs logger_defs split: sum.splits option.splits)

subsection \<open>The credential guard\<close>

text \<open>With an empty email setting \<open>tryLogin\<close> raises the alert, fails, and calls
  neither \<open>EufySecurity.initialize\<close> nor \<open>connect\<close>.\<close>
lemma tryLogin_empty_email_fails:
  assumes "falsy (v_email (vals s))"
  shows "fst (tryLogin r tfc cc s) = Inl (Error ''Eufy email and password are missing.'')"
    and "alerts (snd (tryLogin r tfc cc s))
           = [''Enter your Eufy email and password to complete setup.'']"
    and "initialize_calls (snd (tryLogin r tfc cc s)) = initialize_calls s"
    and "connect_calls (snd (tryLogin r tfc cc s)) = connect_calls s"
    and "client (snd (tryLogin r tfc cc s)) = client s"
  using assms
  by (simp_all add: tryLogin_result tryLogin_fields tryLogin_effects connect_calls_def
      initialize_calls_def)

text \<open>C1. The claim: whenever the email setting or the password setting is empty,
  \<open>tryLogin\<close> raises an alert, fails and neither initializes the client nor calls
  \<open>connect\<close>. The guard of the source tests the email setting twice and the password
  setting never. With an email set and the password the empty string, \<open>tryLogin\<close>
  raises no alert, hands the configuration to \<open>EufySecurity.initialize\<close> and calls
  \<open>connect\<close> on the new client.\<close>
theorem tryLogin_empty_password_connects:
  "v_password (vals password_missing_plugin) = Some []
   \<and> fst (tryLogin (Inr 1) None None password_missing_plugin) = Inr ()
   \<and> alerts (snd (tryLogin (Inr 1) None None password_missing_plugin)) = []
   \<and> map username (initialize_calls (snd (tryLogin (Inr 1) None None password_missing_plugin)))
       = [Some ''user@example.com'']
   \<and> connect_calls (snd (tryLogin (Inr 1) None None password_missing_plugin))
       = [(1, \<lparr>verifyCode = None, captcha = None, force = False\<rparr>)]"
  by (simp add: tryLogin_result tryLogin_fields tryLogin_effects connect_calls_def
      initialize_calls_def password_missing_plugin_def set_credentials_def fresh_plugin_def
      falsy_def build_config_def)

subsection \<open>The alert log is cleared first\<close>

text \<open>C8. Every \<open>tryLogin\<close> clears the alert log as its first effect: whatever the
  settings, the arguments and the answer of the vendor library, the first call that
  \<open>tryLogin\<close> adds to the calls made so far is \<open>clearAlerts\<close>, already in its first
  stretch. It comes before the alert of the credential guard and before
  \<open>EufySecurity.initialize\<close>, so before the guard has had any effect, and no alert
  from before the call is left afterwards.\<close>
theorem tryLogin_clears_alerts_first:
  "(\<exists>rest. effects (snd (tryLogin_enter s)) = effects s @ HostClearAlerts # rest)
   \<and> (\<exists>rest. effects (snd (tryLogin r tfc cc s)) = effects s @ HostClearAlerts # rest)
   \<and> alerts (snd (tryLogin r tfc cc s))
       = (if falsy (v_email (vals s))
          then [''Enter your Eufy email and password to complete setup.''] else [])"
  by (simp add: tryLogin_effects tryLogin_fields)
     (simp add: tryLogin_enter_def Let_def logger_defs)

subsection \<open>Releasing a device\<close>

text \<open>C10. \<open>releaseDevice\<close> only logs: it adds one info line to the calls made and
  leaves the map of device handles as it is, so \<open>getDevice\<close> answers after the call
  what it answered before, for every native id.\<close>
theorem releaseDevice_keeps_devices:
  "getDevice n (releaseDevice ident nid now s) = getDevice n s
   \<and> devices (releaseDevice ident nid now s) = devices s
   \<and> (\<exists>text. effects (releaseDevice ident nid now s) = effects s @ [HostLog I text])"
  by (simp add: getDevice_def releaseDevice_def logger_defs)

subsection \<open>Challenges\<close>



lemma on_captcha_request_fields:
  "alerts (on_captcha_request ident img s) = alerts s @ [captcha_alert img]"
  "vals (on_captcha_request ident img s) = (vals s)\<lparr>v_captchaId := Some ident\<rparr>"
  "effects (on_captcha_request ident img s)
     = effects s @ [HostLog A (captcha_alert img), PutSetting ''captchaId'' ident]"
  "client (on_captcha_request ident img s) = client s"
  "registered (on_captcha_request ident img s) = registered s"
  "devices (on_captcha_request ident img s) = devices s"
  "name (on_captcha_request ident img s) = name s"
  by (simp_all add: on_captcha_request_def putSetting_captchaId_def logger_defs)

lemma on_tfa_request_pending:
  "alerts (on_tfa_request s) = alerts s @ [tfa_alert]"
  "challengeState (on_tfa_request s) = TwoFactorPending"
  by (simp_all add: on_tfa_request_def logger_defs challengeState_def)

lemma configured_email: "\<not> falsy (v_email (vals configured_plugin))"
  by (simp add: configured_plugin_def set_credentials_def fresh_plugin_def falsy_def)






subsection \<open>The options of the connect call\<close>

text \<open>C7. Every \<open>tryLogin\<close> that gets past the credential guard and obtains its
  client calls \<open>connect\<close> once, with the two-factor code it was given as \<open>verifyCode\<close>
  and with \<open>force\<close> false; and whatever the outcome, every \<open>connect\<close> call a
  \<open>tryLogin\<close> makes has that \<open>verifyCode\<close> and \<open>force\<close> false.\<close>
theorem tryLogin_verifyCode_force:
  assumes "\<not> falsy (v_email (vals s))"
  shows "(\<exists>cap. connect_calls (snd (tryLogin (Inr c) tfc cc s))
            = connect_calls s @ [(c, \<lparr>verifyCode = tfc, captcha = cap, force = False\<rparr>)])
     \<and> (\<forall>r. \<forall>x \<in> set (drop (length (connect_calls s))
                        (connect_calls (snd (tryLogin r tfc cc s)))).
            verifyCode (snd x) = tfc \<and> \<not> force (snd x))"
  using assms
  by (auto simp add: tryLogin_effects connect_calls_def split: sum.splits)

theorem tryLogin_verifyCode_force_witness:
  "connect_calls (snd (tryLogin (Inr 5) (Some ''123456'') None configured_plugin))
     = [(5, \<lparr>verifyCode = Some ''123456'', captcha = None, force = False\<rparr>)]"
  using tryLogin_verifyCode_force [of configured_plugin 5 "Some ''123456''" None]
  by (simp add: configured_plugin_def set_credentials_def fresh_plugin_def falsy_def
      connect_calls_def tryLogin_effects)

subsection \<open>Discovered devices\<close>

text \<open>Whatever the device answers to \<open>isCamera()\<close>, the guard of \<open>deviceAdded\<close> does
  not fire: the device is logged as discovered, stored and handed to the host.\<close>
lemma deviceAdded_always_registers:
  "\<exists>desc. registrations (deviceAdded rv now d s) = registrations s @ [desc]
     \<and> nativeId desc = getSerial d \<and> device_type desc = DeviceType_Camera"
  by (simp add: deviceAdded_def uncalled_method_truthy_def Let_def logger_defs
      registrations_def)

text \<open>C5. The claim: a discovered device that reports it is not a camera is logged and
  skipped, with no registration call and no handle kept. The guard reads the method
  \<open>isCamera\<close> without calling it, so it never fires. A keypad, which answers false to
  \<open>isCamera()\<close>, is logged as a discovered device, handed to the host as a camera and
  kept in the device map, in both revisions.\<close>
theorem deviceAdded_registers_non_camera:
  "\<not> isCamera keypad
   \<and> map nativeId (registrations (deviceAdded Rev1 ''now'' keypad configured_plugin))
       = [''T8960N0000000001'']
   \<and> map device_type (registrations (deviceAdded Rev1 ''now'' keypad configured_plugin))
       = [DeviceType_Camera]
   \<and> map nativeId (registrations (deviceAdded Rev2 ''now'' keypad configured_plugin))
       = [''T8960N0000000001'']
   \<and> map_option cam_device (getDevice ''T8960N0000000001''
         (deviceAdded Rev2 ''now'' keypad configured_plugin)) = Some keypad
   \<and> messages (deviceAdded Rev2 ''now'' keypad configured_plugin) =
       [''[Eufy] (now) Device discovered:  [''
        @ [CHR 0x22] @ ''Keypad'' @ [CHR 0x22] @ '','' @ [CHR 0x22] @ ''T8960'' @ [CHR 0x22]
        @ '']'']"
  by (simp add: deviceAdded_def uncalled_method_truthy_def Let_def logger_defs getDevice_def
      registrations_def messages_def stamp_def getMessage_def json_stringify_def
      json_string_def json_escape_def keypad_def configured_plugin_def set_credentials_def
      fresh_plugin_def)

text \<open>C2, as stated, fails on the second revision: a camera that reports a battery
  and motion detection is registered with the fixed list of video camera, camera and
  on/off, without the battery and the motion sensor.\<close>
theorem deviceAdded_rev2_battery_counterexample:
  "isCamera battery_camera \<and> hasBattery battery_camera
   \<and> hasProperty battery_camera ''motionDetection''
   \<and> map interfaces (registrations (deviceAdded Rev2 ''now'' battery_camera configured_plugin))
       = [[VideoCamera, Camera, OnOff]]"
  by (simp add: battery_camera_def hasProperty_def deviceAdded_def
      uncalled_method_truthy_def Let_def logger_defs
      registrations_def device_interfaces_def configured_plugin_def set_credentials_def
      fresh_plugin_def)

text \<open>C2, amended. For every discovered camera \<open>deviceAdded\<close> hands one descriptor to
  the host, under the device's serial number, and its interface list always has the
  video camera. In the first revision it has the battery exactly when the device
  reports one, and the motion sensor exactly when the device has the property
  \<open>motionDetection\<close>; in the second revision it is the fixed list of video camera,
  camera and on/off, whatever the device reports.\<close>
theorem deviceAdded_interfaces:
  assumes "isCamera d"
  shows "\<exists>desc. registrations (deviceAdded rv now d s) = registrations s @ [desc]
     \<and> nativeId desc = getSerial d
     \<and> VideoCamera \<in> set (interfaces desc)
     \<and> (case rv of
          Rev1 \<Rightarrow> (Battery \<in> set (interfaces desc) \<longleftrightarrow> hasBattery d)
                  \<and> (MotionSensor \<in> set (interfaces desc)
                       \<longleftrightarrow> hasProperty d ''motionDetection'')
        | Rev2 \<Rightarrow> interfaces desc = [VideoCamera, Camera, OnOff])"
  using assms
  by (simp add: deviceAdded_def uncalled_method_truthy_def Let_def logger_defs
      registrations_def device_interfaces_def split: revision.splits)

theorem deviceAdded_interfaces_witness:
  "map interfaces (registrations (deviceAdded Rev1 ''now'' battery_camera configured_plugin))
     = [[VideoCamera, Battery, MotionSensor]]"
  using deviceAdded_interfaces [of battery_camera Rev1 "''now''" configured_plugin]
  by (simp add: battery_camera_def hasProperty_def deviceAdded_def
      uncalled_method_truthy_def Let_def logger_defs
      registrations_def device_interfaces_def configured_plugin_def set_credentials_def
      fresh_plugin_def)

subsection \<open>Overlapping logins\<close>

text \<open>C6, as stated, fails. Two logins overlap; \<open>connect\<close> has been called on the
  clients of both and both carry the handlers. The second client asks for a captcha
  and its identifier is stored. Then the first client, late, asks for a captcha too:
  its handler runs all the same and replaces the identifier that the second login had
  stored.\<close>
theorem overlap_first_overwrites_counterexample:
  "map fst (connect_calls overlap_second_asked) = [1, 2]
   \<and> registered overlap_second_asked = [1, 2]
   \<and> client overlap_second_asked = Some 2
   \<and> v_captchaId (vals overlap_second_asked) = Some ''id2''
   \<and> client overlap_first_late = Some 2
   \<and> v_captchaId (vals overlap_first_late) = Some ''id1''"
  by (simp add: overlap_first_late_def overlap_second_asked_def run_def emit_def
      tryLogin_fields tryLogin_effects connect_calls_def configured_email
      on_captcha_request_fields configured_plugin_def set_credentials_def fresh_plugin_def
      falsy_def)

lemma connect_calls_frame [simp]:
  "connect_calls (host_log lvl text s) = connect_calls s"
  "connect_calls (clearAlerts s) = connect_calls s"
  by (simp_all add: connect_calls_def)

lemma handle_event_frame:
  "client (handle_event rv now ev s) = client s"
  "registered (handle_event rv now ev s) = registered s"
  "connect_calls (handle_event rv now ev s) = connect_calls s"
  by (cases ev;
      simp add: deviceAdded_def uncalled_method_truthy_def stationAdded_def on_tfa_request_def
        on_captcha_request_fields on_connect_def on_push_connect_def on_push_close_def
        Let_def logger_defs connect_calls_def)+

lemma funpow_handle_event_frame:
  "client ((handle_event rv now ev ^^ n) s) = client s"
  "registered ((handle_event rv now ev ^^ n) s) = registered s"
  "connect_calls ((handle_event rv now ev ^^ n) s) = connect_calls s"
  by (induction n) (simp_all add: handle_event_frame)

lemma handle_inv_frame:
  "client t = client s \<Longrightarrow> registered t = registered s \<Longrightarrow> connect_calls t = connect_calls s
   \<Longrightarrow> handle_inv t = handle_inv s"
  by (simp add: handle_inv_def)

lemma handle_inv_client: "handle_inv s \<Longrightarrow> client s = Some c \<Longrightarrow> c \<in> set (registered s)"
  by (cases "rev (registered s)") (auto simp add: handle_inv_def dest: arg_cong [where f = set])

lemma initializeClient_resume_frame:
  "client (initializeClient_resume c s) = Some c"
  "registered (initializeClient_resume c s) = registered s @ [c]"
  "connect_calls (initializeClient_resume c s) = connect_calls s"
  "vals (initializeClient_resume c s) = vals s"
  by (simp_all add: initializeClient_resume_def connect_calls_def)

lemma handle_inv_initializeClient_resume:
  "handle_inv s \<Longrightarrow> handle_inv (initializeClient_resume c s)"
  by (auto simp add: handle_inv_def initializeClient_resume_frame list_all_iff)

lemma tryLogin_connects_own_client:
  "\<not> falsy (v_email (vals t)) \<Longrightarrow>
   map fst (connect_calls (snd (tryLogin (Inr c) tfc cc t))) = map fst (connect_calls t) @ [c]"
  by (simp add: tryLogin_effects connect_calls_def)

lemma configured_plugin_start:
  "client configured_plugin = None"
  "registered configured_plugin = []"
  "connect_calls configured_plugin = []"
  by (simp_all add: connect_calls_def configured_plugin_def set_credentials_def
      fresh_plugin_def)

lemma tryLogin_connect_calls:
  "connect_calls (snd (tryLogin_connect tfc cc s)) =
     connect_calls s @
       (case client s of
          None \<Rightarrow> []
        | Some c \<Rightarrow>
            [(c, \<lparr>verifyCode = tfc,
                  captcha = (case cc of None \<Rightarrow> None
                             | Some code \<Rightarrow> if code = [] then None
                                 else Some \<lparr>captchaCode = code,
                                            captchaId = v_captchaId (vals s)\<rparr>),
                  force = False\<rparr>)])"
  "client (snd (tryLogin_connect tfc cc s)) = client s"
  "registered (snd (tryLogin_connect tfc cc s)) = registered s"
  by (simp_all add: tryLogin_connect_def Let_def logger_defs connect_calls_def
      split: option.splits)

lemma handle_inv_tryLogin_connect:
  assumes "handle_inv s"
  shows "handle_inv (snd (tryLogin_connect tfc cc s))"
proof (cases "client s")
  case None
  then show ?thesis using assms
    by (simp add: handle_inv_def tryLogin_connect_calls)
next
  case (Some c)
  let ?s' = "snd (tryLogin_connect tfc cc s)"
  from Some have mem: "c \<in> set (registered s)" using assms by (simp add: handle_inv_client)
  have calls: "list_all (\<lambda>call. fst call \<in> set (registered s)) (connect_calls s)"
    using assms by (simp add: handle_inv_def)
  have handle: "client ?s' = (case rev (registered ?s') of [] \<Rightarrow> None | c # _ \<Rightarrow> Some c)"
    using assms by (simp add: handle_inv_def tryLogin_connect_calls)
  have calls': "list_all (\<lambda>call. fst call \<in> set (registered ?s')) (connect_calls ?s')"
    using mem calls by (simp add: tryLogin_connect_calls Some)
  from handle calls' show ?thesis
    unfolding handle_inv_def by (rule conjI)
qed

lemma tryLogin_enter_frame:
  "client (snd (tryLogin_enter s)) = client s"
  "registered (snd (tryLogin_enter s)) = registered s"
  "connect_calls (snd (tryLogin_enter s)) = connect_calls s"
  by (simp_all add: tryLogin_enter_def Let_def logger_defs connect_calls_def)

lemma tryLogin_stretches:
  "snd (tryLogin r tfc cc s) =
     (if falsy (v_email (vals s)) then snd (tryLogin_enter s)
      else case r of
             Inl e \<Rightarrow> snd (tryLogin_enter s)
           | Inr c \<Rightarrow> snd (tryLogin_connect tfc cc
                            (initializeClient_resume c (snd (tryLogin_enter s)))))"
  by (simp add: tryLogin_def tryLogin_enter_def Let_def split: sum.splits)

lemma handle_inv_tryLogin_enter: "handle_inv s \<Longrightarrow> handle_inv (snd (tryLogin_enter s))"
  by (simp add: handle_inv_frame [OF tryLogin_enter_frame])

lemma handle_inv_tryLogin: "handle_inv s \<Longrightarrow> handle_inv (snd (tryLogin r tfc cc s))"
  by (simp add: tryLogin_stretches handle_inv_tryLogin_enter
      handle_inv_initializeClient_resume handle_inv_tryLogin_connect split: sum.splits)

lemma handle_inv_step: "handle_inv s \<Longrightarrow> handle_inv (step rv a s)"
proof (cases a)
  case (Emit now c ev)
  then show "handle_inv s \<Longrightarrow> ?thesis"
    by (simp add: emit_def handle_inv_frame [OF funpow_handle_event_frame])
next
  case (ReleaseDevice ident nid now)
  then show "handle_inv s \<Longrightarrow> ?thesis"
    by (simp add: releaseDevice_def logger_defs handle_inv_def)
qed (simp_all add: handle_inv_tryLogin handle_inv_tryLogin_enter
      handle_inv_initializeClient_resume handle_inv_tryLogin_connect)

lemma handle_inv_run: "handle_inv s \<Longrightarrow> handle_inv (run rv acts s)"
  unfolding run_def
  by (induction acts arbitrary: s) (simp_all add: handle_inv_step)

text \<open>C6, amended. The plugin holds one client handle, and in every state reached by
  logins, stretches of overlapping logins, client events and device releases it is
  the client of the initialization that resolved last: every initialization that
  resolves replaces the handle and registers the handlers on the new client. A
  \<open>connect\<close> call goes to the client the handle holds when the call is made, which for
  overlapping logins need not be the caller's own; a login run without another in
  between connects its own client. The clients of earlier logins keep their handlers
  and nothing marks their events as stale: an event of an earlier client runs its
  handler on the plugin as an event of the current one would.\<close>
theorem handle_follows_latest_initialization:
  assumes "handle_inv s"
  shows "handle_inv (run rv acts s)
     \<and> client (initializeClient_resume c t) = Some c
     \<and> registered (initializeClient_resume c t) = registered t @ [c]
     \<and> (client t = Some c \<longrightarrow>
          (\<exists>opts. connect_calls (snd (tryLogin_connect tfc cc t))
                    = connect_calls t @ [(c, opts)]))
     \<and> (\<not> falsy (v_email (vals t)) \<longrightarrow>
          client (snd (tryLogin (Inr c) tfc cc t)) = Some c
          \<and> map fst (connect_calls (snd (tryLogin (Inr c) tfc cc t)))
              = map fst (connect_calls t) @ [c])
     \<and> (count_list (registered t) c' = 1 \<longrightarrow>
          emit rv now c' ev t = handle_event rv now ev t)"
  using assms
  by (simp add: handle_inv_run initializeClient_resume_frame tryLogin_connect_calls
      tryLogin_fields tryLogin_connects_own_client emit_def)

theorem handle_follows_latest_initialization_witness:
  "handle_inv configured_plugin
   \<and> handle_inv overlap_interleaved
   \<and> registered overlap_interleaved = [1, 2]
   \<and> client overlap_interleaved = Some 2
   \<and> map fst (connect_calls overlap_interleaved) = [2, 2]
   \<and> map (verifyCode \<circ> snd) (connect_calls overlap_interleaved) = [Some ''111111'', None]
   \<and> emit Rev1 ''now'' 1 Connect overlap_interleaved = on_connect ''now'' overlap_interleaved"
proof -
  have start: "handle_inv configured_plugin"
    by (simp add: handle_inv_def configured_plugin_start)
  have reg: "registered overlap_interleaved = [1, 2]"
    and cl: "client overlap_interleaved = Some 2"
    and calls: "map fst (connect_calls overlap_interleaved) = [2, 2]"
    and codes: "map (verifyCode \<circ> snd) (connect_calls overlap_interleaved)
                  = [Some ''111111'', None]"
    by (simp_all add: overlap_interleaved_def run_def tryLogin_connect_calls
        tryLogin_enter_frame initializeClient_resume_frame configured_plugin_start)
  have once: "count_list (registered overlap_interleaved) 1 = 1"
    by (simp add: reg)
  from handle_follows_latest_initialization [OF start, of Rev1
      "[TryLoginEnter, TryLoginEnter, InitResolved 1, InitResolved 2,
        TryLoginConnect (Some ''111111'') None, TryLoginConnect None None]"
      2 overlap_interleaved None None 1 "''now''" Connect]
  show ?thesis
    using start reg cl calls codes once by (simp add: overlap_interleaved_def)
qed

subsection \<open>Credentials and the emitted messages\<close>

lemma effect_message_redact [simp]: "effect_message (redact e) = effect_message e"
  by (cases e) simp_all

lemma messages_redact: "messages s = concat (map effect_message (map redact (effects s)))"
  by (simp add: messages_def comp_def)

lemma cred_equiv_messages: "cred_equiv s t \<Longrightarrow> messages s = messages t"
  by (simp add: messages_redact cred_equiv_def)

lemma cred_equiv_alerts: "cred_equiv s t \<Longrightarrow> alerts s = alerts t"
  by (simp add: cred_equiv_def)

lemma cred_equiv_host_log:
  "cred_equiv s t \<Longrightarrow> cred_equiv (host_log lvl text s) (host_log lvl text t)"
  by (simp add: cred_equiv_def)

lemma cred_equiv_clearAlerts:
  "cred_equiv s t \<Longrightarrow> cred_equiv (clearAlerts s) (clearAlerts t)"
  by (simp add: cred_equiv_def)

lemma cred_equiv_stamp: "cred_equiv s t \<Longrightarrow> stamp s now = stamp t now"
  by (simp add: cred_equiv_def stamp_def)

lemma redact_build_config:
  "v_country v = v_country w \<Longrightarrow> v_trustedDeviceName v = v_trustedDeviceName w \<Longrightarrow>
   redact (Initialize (build_config v)) = redact (Initialize (build_config w))"
  by (simp add: build_config_def values_country_def)

lemma cred_equiv_tryLogin:
  assumes "cred_equiv s t"
  shows "cred_equiv (snd (tryLogin r tfc cc s)) (snd (tryLogin r tfc cc t))"
  using assms redact_build_config [of "vals s" "vals t"]
  by (auto simp add: cred_equiv_def tryLogin_fields tryLogin_effects
      split: sum.splits option.splits)

lemma cred_equiv_tryLogin_enter:
  assumes "cred_equiv s t"
  shows "cred_equiv (snd (tryLogin_enter s)) (snd (tryLogin_enter t))"
  using assms redact_build_config [of "vals s" "vals t"]
  by (simp add: cred_equiv_def tryLogin_enter_def Let_def logger_defs)

lemma cred_equiv_initializeClient_resume:
  "cred_equiv s t \<Longrightarrow> cred_equiv (initializeClient_resume c s) (initializeClient_resume c t)"
  by (simp add: cred_equiv_def initializeClient_resume_def)

lemma cred_equiv_tryLogin_connect:
  "cred_equiv s t \<Longrightarrow>
   cred_equiv (snd (tryLogin_connect tfc cc s)) (snd (tryLogin_connect tfc cc t))"
  by (simp add: cred_equiv_def tryLogin_connect_def Let_def logger_defs split: option.splits)

lemma cred_equiv_handle_event:
  assumes "cred_equiv s t"
  shows "cred_equiv (handle_event rv now ev s) (handle_event rv now ev t)"
proof (cases ev)
  case (DeviceAdded d)
  then show ?thesis using assms cred_equiv_stamp [OF assms, of now]
    by (simp add: deviceAdded_def uncalled_method_truthy_def Let_def logger_defs
        cred_equiv_def)
next
  case (StationAdded n m)
  then show ?thesis using assms cred_equiv_stamp [OF assms, of now]
    by (simp add: stationAdded_def logger_defs cred_equiv_host_log)
next
  case TfaRequest
  then show ?thesis using assms
    by (simp add: on_tfa_request_def logger_defs cred_equiv_host_log)
next
  case (CaptchaRequest ident img)
  then show ?thesis using assms
    by (simp add: on_captcha_request_fields cred_equiv_def)
next
  case Connect
  then show ?thesis using assms cred_equiv_stamp [OF assms, of now]
    by (simp add: on_connect_def logger_defs cred_equiv_host_log cred_equiv_clearAlerts)
next
  case PushConnect
  then show ?thesis using assms cred_equiv_stamp [OF assms, of now]
    by (simp add: on_push_connect_def logger_defs cred_equiv_host_log)
next
  case PushClose
  then show ?thesis using assms cred_equiv_stamp [OF assms, of now]
    by (simp add: on_push_close_def logger_defs cred_equiv_host_log)
qed

lemma cred_equiv_funpow:
  "cred_equiv s t \<Longrightarrow>
   cred_equiv ((handle_event rv now ev ^^ n) s) ((handle_event rv now ev ^^ n) t)"
  by (induction n) (simp_all add: cred_equiv_handle_event)

lemma cred_equiv_emit:
  assumes "cred_equiv s t"
  shows "cred_equiv (emit rv now c ev s) (emit rv now c ev t)"
proof -
  have "registered s = registered t" using assms by (simp add: cred_equiv_def)
  then show ?thesis using assms by (simp add: emit_def cred_equiv_funpow)
qed

lemma cred_equiv_releaseDevice:
  assumes "cred_equiv s t"
  shows "cred_equiv (releaseDevice ident nid now s) (releaseDevice ident nid now t)"
  using assms cred_equiv_stamp [OF assms, of now]
  by (simp add: releaseDevice_def logger_defs cred_equiv_host_log)

lemma cred_equiv_step:
  "cred_equiv s t \<Longrightarrow> cred_equiv (step rv a s) (step rv a t)"
  by (cases a)
     (simp_all add: cred_equiv_tryLogin cred_equiv_tryLogin_enter
        cred_equiv_initializeClient_resume cred_equiv_tryLogin_connect cred_equiv_emit
        cred_equiv_releaseDevice)

lemma cred_equiv_run:
  "cred_equiv s t \<Longrightarrow> cred_equiv (run rv acts s) (run rv acts t)"
  unfolding run_def
  by (induction acts arbitrary: s t) (simp_all add: cred_equiv_step)

lemma cred_equiv_set_credentials:
  "falsy e1 = falsy e2 \<Longrightarrow> cred_equiv (set_credentials e1 p1 s) (set_credentials e2 p2 s)"
  by (simp add: cred_equiv_def set_credentials_def)

text \<open>C9, as stated, fails: the messages of a login differ between an empty email
  and a non-empty one, all else equal. With the empty email the guard raises its
  alert; with an email set the login logs its \<open>connect\<close> line.\<close>
theorem messages_depend_on_email_counterexample:
  "messages (run Rev1 [TryLogin (Inr 1) None None]
       (set_credentials (Some []) (Some ''secret'') fresh_plugin))
     = [''Enter your Eufy email and password to complete setup.'']
   \<and> messages (run Rev1 [TryLogin (Inr 1) None None]
       (set_credentials (Some ''user@example.com'') (Some ''secret'') fresh_plugin))
     = [''connect client'']"
  by (simp add: run_def messages_def tryLogin_effects set_credentials_def fresh_plugin_def
      falsy_def)

text \<open>C9, amended. For every two pairs of credential values that agree on whether
  the email is empty, and every sequence of logins, client events and device releases,
  the plugin emits the same log and alert texts and ends with the same alert log: the
  texts depend on the credentials through the emptiness of the email only.\<close>
theorem messages_independent_of_credentials:
  assumes "falsy e1 = falsy e2"
  shows "messages (run rv acts (set_credentials e1 p1 s))
           = messages (run rv acts (set_credentials e2 p2 s))
     \<and> alerts (run rv acts (set_credentials e1 p1 s))
           = alerts (run rv acts (set_credentials e2 p2 s))"
proof -
  have "cred_equiv (run rv acts (set_credentials e1 p1 s))
          (run rv acts (set_credentials e2 p2 s))"
    using assms by (intro cred_equiv_run cred_equiv_set_credentials)
  then show ?thesis by (simp add: cred_equiv_messages cred_equiv_alerts)
qed

theorem messages_independent_of_credentials_witness:
  "messages (run Rev1 [TryLogin (Inr 1) None None, Emit ''now'' 1 TfaRequest]
       (set_credentials (Some ''user@example.com'') (Some ''secret'') fresh_plugin))
     = messages (run Rev1 [TryLogin (Inr 1) None None, Emit ''now'' 1 TfaRequest]
       (set_credentials (Some ''other@example.org'') (Some ''hunter2'') fresh_plugin))
   \<and> messages (run Rev1 [TryLogin (Inr 1) None None, Emit ''now'' 1 TfaRequest]
       (set_credentials (Some ''user@example.com'') (Some ''secret'') fresh_plugin))
     = [''connect client'', tfa_alert]"
proof -
  have h: "falsy (Some ''user@example.com'') = falsy (Some ''other@example.org'')"
    by (simp add: falsy_def)
  from messages_independent_of_credentials [OF h, of Rev1
      "[TryLogin (Inr 1) None None, Emit ''now'' 1 TfaRequest]" "Some ''secret''" fresh_plugin
      "Some ''hunter2''"]
  show ?thesis
    by (simp add: run_def messages_def tryLogin_effects tryLogin_fields emit_def
        on_tfa_request_def logger_defs set_credentials_def fresh_plugin_def falsy_def)
qed

end
